theory Spec2Isabelle
  imports Complex_Main
begin

section \<open>Data model\<close>

text \<open>
  The serving shim of \<^verbatim>\<open>src/mlx_api\<close>: \<^verbatim>\<open>config.py\<close> (settings),
  \<^verbatim>\<open>models.py\<close> (request and response schemas) and \<^verbatim>\<open>server.py\<close>
  (module state and the three endpoints). Python's unbounded \<^verbatim>\<open>int\<close> is \<open>int\<close>;
  a Python \<^verbatim>\<open>float\<close> is read as the real number it denotes (rounding is not
  modelled); \<^verbatim>\<open>str\<close> is \<open>string\<close>.
\<close>

subsection \<open>config.py\<close>

text \<open>
  The dataclass \<^verbatim>\<open>Config\<close>, already resolved from the environment. Its field
  \<^verbatim>\<open>model_id\<close> is \<open>config_model_id\<close> here, the name \<open>model_id\<close> being kept for the
  field of \<^verbatim>\<open>ModelState\<close>.
\<close>

record Config =
  config_model_id :: string
  host :: string
  port :: int
  default_max_tokens :: int
  default_temperature :: real
  default_top_p :: real
  max_input_tokens :: int
  max_output_tokens :: int
  request_timeout :: int

subsection \<open>models.py\<close>

record Message =
  role :: string
  content :: string

record GenerateRequest =
  messages :: "Message list"
  max_tokens :: int
  temperature :: real
  top_p :: real

text \<open>
  The fields \<^verbatim>\<open>model\<close> of \<^verbatim>\<open>GenerateResponse\<close> and of \<^verbatim>\<open>HealthResponse\<close> are
  \<open>response_model\<close> and \<open>health_model\<close>.
\<close>

record GenerateResponse =
  response :: string
  tokens_generated :: int
  generation_time_ms :: int
  response_model :: string

record HealthResponse =
  status :: string
  health_model :: string
  model_loaded :: bool
  uptime_seconds :: real

text \<open>
  The body of a \<^verbatim>\<open>POST /generate\<close> as it arrives: \<^verbatim>\<open>messages\<close> is required
  (\<^verbatim>\<open>Field(...)\<close>), the three numeric fields are optional and carry the declared
  defaults.
\<close>

record Payload =
  payload_messages :: "Message list option"
  payload_max_tokens :: "int option"
  payload_temperature :: "real option"
  payload_top_p :: "real option"

text \<open>
  Construction of a \<^verbatim>\<open>GenerateRequest\<close> from a payload, with the constraints the
  schema declares: \<^verbatim>\<open>max_tokens\<close> has \<^verbatim>\<open>ge=1, le=2048\<close>, \<^verbatim>\<open>temperature\<close> has
  \<^verbatim>\<open>ge=0.0, le=2.0\<close>, \<^verbatim>\<open>top_p\<close> has \<^verbatim>\<open>ge=0.0, le=1.0\<close>. \<^verbatim>\<open>messages\<close> is a
  \<^verbatim>\<open>list[Message]\<close> with no length constraint and \<^verbatim>\<open>role\<close> is a \<^verbatim>\<open>str\<close> with no
  constraint. \<open>None\<close> is a validation error.
\<close>

definition with_default :: "'a \<Rightarrow> 'a option \<Rightarrow> 'a" where
  "with_default d v = (case v of None \<Rightarrow> d | Some x \<Rightarrow> x)"

definition GenerateRequest_validate :: "Payload \<Rightarrow> GenerateRequest option" where
  "GenerateRequest_validate p =
     (case payload_messages p of
        None \<Rightarrow> None
      | Some ms \<Rightarrow>
          (let mt = with_default 512 (payload_max_tokens p);
               te = with_default (7 / 10) (payload_temperature p);
               tp = with_default (9 / 10) (payload_top_p p)
           in if 1 \<le> mt \<and> mt \<le> 2048 \<and> 0 \<le> te \<and> te \<le> 2 \<and> 0 \<le> tp \<and> tp \<le> 1
              then Some \<lparr>messages = ms, max_tokens = mt, temperature = te, top_p = tp\<rparr>
              else None))"

subsection \<open>Exceptions\<close>

text \<open>
  \<open>HTTPException status_code detail\<close> is FastAPI's exception; \<open>PyException msg\<close> is any
  other instance of \<^verbatim>\<open>Exception\<close>, with \<open>msg\<close> its \<^verbatim>\<open>str(e)\<close>.
\<close>

datatype py_exception = HTTPException int string | PyException string

subsection \<open>The model runtime and the world around the handler\<close>

text \<open>
  The tokenizer object and \<^verbatim>\<open>mlx_lm.generate\<close> are external. Each call answers with the
  wall-clock time it takes and either the exception it raises or its value. The world
  holds the clock that \<^verbatim>\<open>time.time()\<close> reads and the log of the calls made to the
  runtime, in order.
\<close>

type_synonym 'a outcome = "real \<times> (py_exception + 'a)"

record Tokenizer =
  apply_chat_template :: "(string \<times> string) list list \<Rightarrow> bool \<Rightarrow> bool \<Rightarrow> string outcome"
  encode :: "string \<Rightarrow> nat list outcome"

type_synonym 'm generate_fn =
  "'m \<Rightarrow> Tokenizer \<Rightarrow> string \<Rightarrow> int \<Rightarrow> real \<Rightarrow> real \<Rightarrow> string outcome"

datatype runtime_call =
    ApplyChatTemplate "(string \<times> string) list list"
  | Encode string
  | Generate string int real real

record World =
  clock :: real
  calls :: "runtime_call list"

definition perform :: "runtime_call \<Rightarrow> 'a outcome \<Rightarrow> World \<Rightarrow> (py_exception + 'a) \<times> World" where
  "perform c out w = (snd out, w\<lparr>clock := clock w + fst out, calls := calls w @ [c]\<rparr>)"

text \<open>
  The three calls the handler makes. Each is logged with the arguments it is made with:
  \<^verbatim>\<open>tokenizer.apply_chat_template(messages, add_generation_prompt=True, tokenize=False)\<close>,
  \<^verbatim>\<open>tokenizer.encode(text)\<close> and
  \<^verbatim>\<open>generate(model, tokenizer, prompt=..., max_tokens=..., temp=..., top_p=...)\<close>.
\<close>

definition call_apply_chat_template ::
  "Tokenizer \<Rightarrow> (string \<times> string) list list \<Rightarrow> World \<Rightarrow> (py_exception + string) \<times> World" where
  "call_apply_chat_template tk msgs w =
     perform (ApplyChatTemplate msgs) (apply_chat_template tk msgs True False) w"

definition call_encode :: "Tokenizer \<Rightarrow> string \<Rightarrow> World \<Rightarrow> (py_exception + nat list) \<times> World" where
  "call_encode tk s w = perform (Encode s) (encode tk s) w"

definition call_generate ::
  "'m generate_fn \<Rightarrow> 'm \<Rightarrow> Tokenizer \<Rightarrow> string \<Rightarrow> int \<Rightarrow> real \<Rightarrow> real \<Rightarrow> World \<Rightarrow>
     (py_exception + string) \<times> World" where
  "call_generate generate m tk prompt mt te tp w =
     perform (Generate prompt mt te tp) (generate m tk prompt mt te tp) w"

subsection \<open>server.py: module state\<close>

record 'm ModelState =
  model :: "'m option"
  tokenizer :: "Tokenizer option"
  model_id :: string
  load_time :: real
  start_time :: real
  request_count :: int
  total_tokens_generated :: int

definition initial_state :: "'m ModelState" where
  "initial_state =
     \<lparr>model = None, tokenizer = None, model_id = '''', load_time = 0, start_time = 0,
      request_count = 0, total_tokens_generated = 0\<rparr>"

section \<open>Operations\<close>

subsection \<open>Formatting\<close>

text \<open>\<^verbatim>\<open>str\<close> of an integer, as the f-strings of the handler print it.\<close>

definition digit_char :: "nat \<Rightarrow> char" where
  "digit_char d = ''0123456789'' ! d"

function str_nat :: "nat \<Rightarrow> string" where
  "str_nat n = (if n < 10 then [digit_char n] else str_nat (n div 10) @ [digit_char (n mod 10)])"
  by pat_completeness auto
termination
  by (relation "measure id") auto

declare str_nat.simps [simp del]

definition str_int :: "int \<Rightarrow> string" where
  "str_int i = (if i < 0 then CHR ''-'' # str_nat (nat (- i)) else str_nat (nat i))"

text \<open>\<^verbatim>\<open>int(x)\<close> of a float: truncation towards zero.\<close>

definition py_int :: "real \<Rightarrow> int" where
  "py_int x = (if 0 \<le> x then \<lfloor>x\<rfloor> else \<lceil>x\<rceil>)"

subsection \<open>GET /health and GET /stats\<close>

text \<open>
  \<^verbatim>\<open>state.start_time if state.start_time else 0\<close>: a float is falsy exactly when it
  is zero.
\<close>

definition health_check :: "World \<Rightarrow> 'm ModelState \<Rightarrow> HealthResponse" where
  "health_check w st =
     \<lparr>status = (if model st \<noteq> None then ''healthy'' else ''unhealthy''),
      health_model = model_id st,
      model_loaded = (model st \<noteq> None),
      uptime_seconds = (if start_time st \<noteq> 0 then clock w - start_time st else 0)\<rparr>"

text \<open>The dictionary that \<^verbatim>\<open>get_stats\<close> returns, one field for each key.\<close>

record Stats =
  stats_model :: string
  stats_model_load_time_seconds :: real
  stats_uptime_seconds :: real
  stats_total_requests :: int
  stats_total_tokens_generated :: int

definition get_stats :: "World \<Rightarrow> 'm ModelState \<Rightarrow> Stats" where
  "get_stats w st =
     \<lparr>stats_model = model_id st,
      stats_model_load_time_seconds = load_time st,
      stats_uptime_seconds = clock w - start_time st,
      stats_total_requests = request_count st,
      stats_total_tokens_generated = total_tokens_generated st\<rparr>"

subsection \<open>POST /generate\<close>

definition message_dict :: "Message \<Rightarrow> (string \<times> string) list" where
  "message_dict m = [(''role'', role m), (''content'', content m)]"

definition input_too_long :: "nat \<Rightarrow> int \<Rightarrow> py_exception" where
  "input_too_long input_tokens ceiling_tokens =
     HTTPException 400
       (''Input too long: '' @ str_nat input_tokens @ '' tokens (max: ''
          @ str_int ceiling_tokens @ '')'')"

text \<open>
  The body of the \<^verbatim>\<open>try\<close> block (lines 140 to 182), after the gate, the first clock
  read and the increment of \<^verbatim>\<open>request_count\<close>. A raise, by the runtime or by the
  handler, ends the block with \<open>Inl\<close>.
\<close>

definition try_block ::
  "'m generate_fn \<Rightarrow> Config \<Rightarrow> GenerateRequest \<Rightarrow> real \<Rightarrow> 'm \<Rightarrow> Tokenizer \<Rightarrow>
     'm ModelState \<Rightarrow> World \<Rightarrow> (py_exception + GenerateResponse) \<times> 'm ModelState \<times> World" where
  "try_block generate cfg request t0 m tk st w =
     (let msgs = map message_dict (messages request);
          (r1, w1) = call_apply_chat_template tk msgs w
      in case r1 of
           Inl e \<Rightarrow> (Inl e, st, w1)
         | Inr prompt \<Rightarrow>
             (let (r2, w2) = call_encode tk prompt w1
              in case r2 of
                   Inl e \<Rightarrow> (Inl e, st, w2)
                 | Inr toks \<Rightarrow>
                     (let input_tokens = length toks
                      in if int input_tokens > max_input_tokens cfg
                         then (Inl (input_too_long input_tokens (max_input_tokens cfg)), st, w2)
                         else
                           (let (r3, w3) =
                                  call_generate generate m tk prompt
                                    (min (max_tokens request) (max_output_tokens cfg))
                                    (temperature request) (top_p request) w2
                            in case r3 of
                                 Inl e \<Rightarrow> (Inl e, st, w3)
                               | Inr response_text \<Rightarrow>
                                   (let elapsed_ms = py_int ((clock w3 - t0) * 1000);
                                        (r4, w4) = call_encode tk response_text w3
                                    in case r4 of
                                         Inl e \<Rightarrow> (Inl e, st, w4)
                                       | Inr out_toks \<Rightarrow>
                                           (let n = int (length out_toks);
                                                st' = st\<lparr>total_tokens_generated :=
                                                            total_tokens_generated st + n\<rparr>
                                            in (Inr \<lparr>response = response_text,
                                                     tokens_generated = n,
                                                     generation_time_ms = elapsed_ms,
                                                     response_model = model_id st'\<rparr>,
                                                st', w4)))))))"

text \<open>
  The two \<^verbatim>\<open>except\<close> clauses: an \<^verbatim>\<open>HTTPException\<close> is raised again as it is, any
  other exception becomes a 500 whose detail carries \<^verbatim>\<open>str(e)\<close>.
\<close>

definition except_clauses :: "py_exception + 'a \<Rightarrow> py_exception + 'a" where
  "except_clauses r =
     (case r of
        Inl (HTTPException c d) \<Rightarrow> Inl (HTTPException c d)
      | Inl (PyException msg) \<Rightarrow> Inl (HTTPException 500 (''Generation failed: '' @ msg))
      | Inr v \<Rightarrow> Inr v)"

definition generate_response ::
  "'m generate_fn \<Rightarrow> Config \<Rightarrow> GenerateRequest \<Rightarrow> 'm ModelState \<Rightarrow> World \<Rightarrow>
     (py_exception + GenerateResponse) \<times> 'm ModelState \<times> World" where
  "generate_response generate cfg request st w =
     (case (model st, tokenizer st) of
        (Some m, Some tk) \<Rightarrow>
          (let t0 = clock w;
               st1 = st\<lparr>request_count := request_count st + 1\<rparr>;
               (r, st2, w2) = try_block generate cfg request t0 m tk st1 w
           in (except_clauses r, st2, w2))
      | _ \<Rightarrow> (Inl (HTTPException 503 ''Model not loaded. Server is starting up.''), st, w))"

text \<open>
  The route \<^verbatim>\<open>@app.post("/generate", response_model=GenerateResponse)\<close> around the
  handler. The framework builds the \<^verbatim>\<open>GenerateRequest\<close> from the body and calls the
  handler only when that succeeds; otherwise it answers the validation error itself and
  the handler does not run. An \<^verbatim>\<open>HTTPException\<close> is answered by the framework with
  its status code and detail. What the handler returns is then serialized against the
  response model; that step is the framework's, it is a parameter here, and it can
  raise. Any other exception reaches \<^verbatim>\<open>global_exception_handler\<close> (lines 89 to 96),
  which is registered for \<^verbatim>\<open>Exception\<close> and answers 500 with \<^verbatim>\<open>str(exc)\<close> as detail.
  Serialization makes no runtime call and the module state is not touched after the
  handler has returned.
\<close>

datatype 'b http_reply =
    Reply_OK 'b
  | Reply_RequestValidationError
  | Reply_HTTPException int string
  | JSONResponse int "(string \<times> string) list"

type_synonym 'b serializer = "GenerateResponse \<Rightarrow> py_exception + 'b"

definition global_exception_handler :: "string \<Rightarrow> 'b http_reply" where
  "global_exception_handler str_exc =
     JSONResponse 500 [(''error'', ''Internal server error''), (''detail'', str_exc)]"

definition exception_reply :: "py_exception \<Rightarrow> 'b http_reply" where
  "exception_reply e =
     (case e of
        HTTPException c d \<Rightarrow> Reply_HTTPException c d
      | PyException msg \<Rightarrow> global_exception_handler msg)"

definition respond :: "'b serializer \<Rightarrow> py_exception + GenerateResponse \<Rightarrow> 'b http_reply" where
  "respond serialize r =
     (case r of
        Inl e \<Rightarrow> exception_reply e
      | Inr v \<Rightarrow> (case serialize v of Inl e \<Rightarrow> exception_reply e | Inr body \<Rightarrow> Reply_OK body))"

definition post_generate ::
  "'b serializer \<Rightarrow> 'm generate_fn \<Rightarrow> Config \<Rightarrow> Payload \<Rightarrow> 'm ModelState \<Rightarrow> World \<Rightarrow>
     'b http_reply \<times> 'm ModelState \<times> World" where
  "post_generate serialize generate cfg p st w =
     (case GenerateRequest_validate p of
        None \<Rightarrow> (Reply_RequestValidationError, st, w)
      | Some request \<Rightarrow>
          (let (r, st', w') = generate_response generate cfg request st w
           in (respond serialize r, st', w')))"

subsection \<open>Observing the runtime\<close>

text \<open>The calls to \<^verbatim>\<open>mlx_lm.generate\<close> in a call log.\<close>

definition generate_calls :: "runtime_call list \<Rightarrow> runtime_call list" where
  "generate_calls cs =
     filter (\<lambda>c. case c of Generate prompt mt te tp \<Rightarrow> True | _ \<Rightarrow> False) cs"

section \<open>A stub runtime\<close>

text \<open>
  A tokenizer that renders a conversation as the concatenation of its contents in half a
  second and encodes one token for each character in a quarter of a second; a generator
  that answers \<^verbatim>\<open>Hello!\<close> after 61 seconds; a tokenizer whose chat template raises.
  The settings are the defaults of \<^verbatim>\<open>config.py\<close>.
\<close>

definition stub_tokenizer :: Tokenizer where
  "stub_tokenizer =
     \<lparr>apply_chat_template = (\<lambda>msgs add_generation_prompt tokenize.
        (1 / 2, Inr (concat (map (\<lambda>d. case map_of d ''content'' of None \<Rightarrow> [] | Some c \<Rightarrow> c) msgs)))),
      encode = (\<lambda>text. (1 / 4, Inr (map of_char text)))\<rparr>"

definition raising_tokenizer :: Tokenizer where
  "raising_tokenizer =
     \<lparr>apply_chat_template = (\<lambda>msgs add_generation_prompt tokenize.
        (1 / 2, Inl (PyException ''no chat template''))),
      encode = (\<lambda>text. (1 / 4, Inr (map of_char text)))\<rparr>"

definition stub_generate :: "unit generate_fn" where
  "stub_generate m tk prompt mt te tp = (61, Inr ''Hello!'')"

text \<open>
  A generator that answers with the decimal text of the \<^verbatim>\<open>max_tokens\<close> it is given;
  a serializer that succeeds, with the response itself as body, and one that raises.
\<close>

definition echo_generate :: "unit generate_fn" where
  "echo_generate m tk prompt mt te tp = (3, Inr (str_int mt))"

definition stub_serialize :: "GenerateResponse serializer" where
  "stub_serialize v = Inr v"

definition raising_serialize :: "GenerateResponse serializer" where
  "raising_serialize v = Inl (PyException ''response is not serializable'')"

definition default_config :: Config where
  "default_config =
     \<lparr>config_model_id = ''mlx-community/Llama-3.2-3B-Instruct-4bit'',
      host = ''0.0.0.0'', port = 8000,
      default_max_tokens = 512, default_temperature = 7 / 10, default_top_p = 9 / 10,
      max_input_tokens = 2048, max_output_tokens = 1024, request_timeout = 60\<rparr>"

definition loaded_state :: "unit ModelState" where
  "loaded_state =
     \<lparr>model = Some (), tokenizer = Some stub_tokenizer, model_id = ''stub'',
      load_time = 2, start_time = 100, request_count = 0, total_tokens_generated = 0\<rparr>"

definition stub_world :: World where
  "stub_world = \<lparr>clock = 1000, calls = []\<rparr>"

definition hello_request :: GenerateRequest where
  "hello_request =
     \<lparr>messages = [\<lparr>role = ''user'', content = ''Hi''\<rparr>],
      max_tokens = 2000, temperature = 7 / 10, top_p = 9 / 10\<rparr>"

definition empty_payload :: Payload where
  "empty_payload =
     \<lparr>payload_messages = Some [], payload_max_tokens = None,
      payload_temperature = None, payload_top_p = None\<rparr>"

definition tool_payload :: Payload where
  "tool_payload =
     \<lparr>payload_messages = Some [\<lparr>role = ''tool'', content = ''Hi''\<rparr>], payload_max_tokens = None,
      payload_temperature = None, payload_top_p = None\<rparr>"

definition greedy_payload :: Payload where
  "greedy_payload =
     \<lparr>payload_messages = Some [\<lparr>role = ''user'', content = ''Hi''\<rparr>],
      payload_max_tokens = Some 5000, payload_temperature = None, payload_top_p = None\<rparr>"

definition hello_payload :: Payload where
  "hello_payload =
     \<lparr>payload_messages = Some [\<lparr>role = ''user'', content = ''Hi''\<rparr>],
      payload_max_tokens = Some 2000, payload_temperature = None, payload_top_p = None\<rparr>"

section \<open>The paths through the handler\<close>

lemmas call_defs =
  call_apply_chat_template_def call_encode_def call_generate_def perform_def

lemma generate_response_loaded:
  "model st = Some m \<Longrightarrow> tokenizer st = Some tk \<Longrightarrow>
   generate_response g cfg req st w =
     (let (r, st2, w2) =
        try_block g cfg req (clock w) m tk (st\<lparr>request_count := request_count st + 1\<rparr>) w
      in (except_clauses r, st2, w2))"
  by (simp add: generate_response_def)

lemma generate_response_not_loaded:
  "model st = None \<or> tokenizer st = None \<Longrightarrow>
   generate_response g cfg req st w =
     (Inl (HTTPException 503 ''Model not loaded. Server is starting up.''), st, w)"
  by (auto simp add: generate_response_def split: option.splits)

lemma try_block_render_raises:
  "apply_chat_template tk (map message_dict (messages req)) True False = (d1, Inl e) \<Longrightarrow>
   try_block g cfg req t0 m tk st w =
     (Inl e, st,
      w\<lparr>clock := clock w + d1,
        calls := calls w @ [ApplyChatTemplate (map message_dict (messages req))]\<rparr>)"
  by (simp add: try_block_def call_defs)

lemma try_block_encode_raises:
  "apply_chat_template tk (map message_dict (messages req)) True False = (d1, Inr prompt) \<Longrightarrow>
   encode tk prompt = (d2, Inl e) \<Longrightarrow>
   try_block g cfg req t0 m tk st w =
     (Inl e, st,
      w\<lparr>clock := clock w + d1 + d2,
        calls := calls w @ [ApplyChatTemplate (map message_dict (messages req)), Encode prompt]\<rparr>)"
  by (simp add: try_block_def call_defs)

lemma try_block_too_long:
  "apply_chat_template tk (map message_dict (messages req)) True False = (d1, Inr prompt) \<Longrightarrow>
   encode tk prompt = (d2, Inr toks) \<Longrightarrow>
   max_input_tokens cfg < int (length toks) \<Longrightarrow>
   try_block g cfg req t0 m tk st w =
     (Inl (input_too_long (length toks) (max_input_tokens cfg)), st,
      w\<lparr>clock := clock w + d1 + d2,
        calls := calls w @ [ApplyChatTemplate (map message_dict (messages req)), Encode prompt]\<rparr>)"
  by (simp add: try_block_def call_defs)

lemma try_block_generate_raises:
  "apply_chat_template tk (map message_dict (messages req)) True False = (d1, Inr prompt) \<Longrightarrow>
   encode tk prompt = (d2, Inr toks) \<Longrightarrow>
   int (length toks) \<le> max_input_tokens cfg \<Longrightarrow>
   g m tk prompt (min (max_tokens req) (max_output_tokens cfg)) (temperature req) (top_p req)
     = (d3, Inl e) \<Longrightarrow>
   try_block g cfg req t0 m tk st w =
     (Inl e, st,
      w\<lparr>clock := clock w + d1 + d2 + d3,
        calls := calls w @ [ApplyChatTemplate (map message_dict (messages req)), Encode prompt,
          Generate prompt (min (max_tokens req) (max_output_tokens cfg)) (temperature req) (top_p req)]\<rparr>)"
  by (simp add: try_block_def call_defs)

lemma try_block_count_raises:
  "apply_chat_template tk (map message_dict (messages req)) True False = (d1, Inr prompt) \<Longrightarrow>
   encode tk prompt = (d2, Inr toks) \<Longrightarrow>
   int (length toks) \<le> max_input_tokens cfg \<Longrightarrow>
   g m tk prompt (min (max_tokens req) (max_output_tokens cfg)) (temperature req) (top_p req)
     = (d3, Inr text) \<Longrightarrow>
   encode tk text = (d4, Inl e) \<Longrightarrow>
   try_block g cfg req t0 m tk st w =
     (Inl e, st,
      w\<lparr>clock := clock w + d1 + d2 + d3 + d4,
        calls := calls w @ [ApplyChatTemplate (map message_dict (messages req)), Encode prompt,
          Generate prompt (min (max_tokens req) (max_output_tokens cfg)) (temperature req) (top_p req),
          Encode text]\<rparr>)"
  by (simp add: try_block_def call_defs)

lemma try_block_success:
  "apply_chat_template tk (map message_dict (messages req)) True False = (d1, Inr prompt) \<Longrightarrow>
   encode tk prompt = (d2, Inr toks) \<Longrightarrow>
   int (length toks) \<le> max_input_tokens cfg \<Longrightarrow>
   g m tk prompt (min (max_tokens req) (max_output_tokens cfg)) (temperature req) (top_p req)
     = (d3, Inr text) \<Longrightarrow>
   encode tk text = (d4, Inr out_toks) \<Longrightarrow>
   try_block g cfg req t0 m tk st w =
     (Inr \<lparr>response = text, tokens_generated = int (length out_toks),
           generation_time_ms = py_int ((clock w + d1 + d2 + d3 - t0) * 1000),
           response_model = model_id st\<rparr>,
      st\<lparr>total_tokens_generated := total_tokens_generated st + int (length out_toks)\<rparr>,
      w\<lparr>clock := clock w + d1 + d2 + d3 + d4,
        calls := calls w @ [ApplyChatTemplate (map message_dict (messages req)), Encode prompt,
          Generate prompt (min (max_tokens req) (max_output_tokens cfg)) (temperature req) (top_p req),
          Encode text]\<rparr>)"
  by (simp add: try_block_def call_defs Let_def)

lemma try_block_counters:
  "try_block g cfg req t0 m tk st w = (r, st', w') \<Longrightarrow>
   request_count st' = request_count st \<and>
   total_tokens_generated st' =
     total_tokens_generated st + (case r of Inl e \<Rightarrow> 0 | Inr v \<Rightarrow> tokens_generated v)"
  by (auto simp add: try_block_def call_defs Let_def split: sum.splits if_splits prod.splits)

lemma generate_response_counters:
  assumes "generate_response g cfg req st w = (r, st', w')"
  shows "request_count st' =
           request_count st + (if model st = None \<or> tokenizer st = None then 0 else 1)
         \<and> total_tokens_generated st' =
             total_tokens_generated st + (case r of Inl e \<Rightarrow> 0 | Inr v \<Rightarrow> tokens_generated v)"
proof (cases "model st = None \<or> tokenizer st = None")
  case True
  with assms show ?thesis by (auto simp add: generate_response_not_loaded)
next
  case False
  then obtain m tk where l: "model st = Some m" "tokenizer st = Some tk" by auto
  obtain r0 st0 w0 where
    t: "try_block g cfg req (clock w) m tk (st\<lparr>request_count := request_count st + 1\<rparr>) w
          = (r0, st0, w0)"
    by (cases "try_block g cfg req (clock w) m tk (st\<lparr>request_count := request_count st + 1\<rparr>) w")
  from assms l t have e: "r = except_clauses r0" "st' = st0"
    by (simp_all add: generate_response_loaded)
  from try_block_counters [OF t] e l show ?thesis
    by (auto simp add: except_clauses_def split: sum.splits py_exception.splits)
qed

lemma generate_response_success:
  assumes "model st = Some m" and "tokenizer st = Some tk"
    and "apply_chat_template tk (map message_dict (messages req)) True False = (d1, Inr prompt)"
    and "encode tk prompt = (d2, Inr toks)"
    and "int (length toks) \<le> max_input_tokens cfg"
    and "g m tk prompt (min (max_tokens req) (max_output_tokens cfg)) (temperature req) (top_p req)
           = (d3, Inr reply)"
    and "encode tk reply = (d4, Inr out_toks)"
  shows "generate_response g cfg req st w =
     (Inr \<lparr>response = reply, tokens_generated = int (length out_toks),
           generation_time_ms = py_int ((d1 + d2 + d3) * 1000),
           response_model = model_id st\<rparr>,
      st\<lparr>request_count := request_count st + 1,
         total_tokens_generated := total_tokens_generated st + int (length out_toks)\<rparr>,
      w\<lparr>clock := clock w + d1 + d2 + d3 + d4,
        calls := calls w @ [ApplyChatTemplate (map message_dict (messages req)), Encode prompt,
          Generate prompt (min (max_tokens req) (max_output_tokens cfg)) (temperature req) (top_p req),
          Encode reply]\<rparr>)"
proof -
  have "clock w + d1 + d2 + d3 - clock w = d1 + d2 + d3" by simp
  with assms show ?thesis
    by (simp add: generate_response_loaded try_block_success except_clauses_def add.assoc)
qed


lemma try_block_first_call:
  "take (Suc (length (calls w))) (calls (snd (snd (try_block g cfg req t0 m tk st w))))
     = calls w @ [ApplyChatTemplate (map message_dict (messages req))]"
  by (auto simp add: try_block_def call_defs Let_def split: sum.splits prod.splits)

lemma generate_response_first_call:
  assumes "model st = Some m" and "tokenizer st = Some tk"
  shows "take (Suc (length (calls w))) (calls (snd (snd (generate_response g cfg req st w))))
           = calls w @ [ApplyChatTemplate (map message_dict (messages req))]"
proof -
  let ?st1 = "st\<lparr>request_count := request_count st + 1\<rparr>"
  obtain r0 st0 w0 where t: "try_block g cfg req (clock w) m tk ?st1 w = (r0, st0, w0)"
    by (cases "try_block g cfg req (clock w) m tk ?st1 w")
  with assms try_block_first_call [of w g cfg req "clock w" m tk ?st1] show ?thesis
    by (simp add: generate_response_loaded)
qed

lemma post_generate_validated:
  "GenerateRequest_validate p = Some req \<Longrightarrow>
   post_generate ser g cfg p st w =
     (let (r, st', w') = generate_response g cfg req st w in (respond ser r, st', w'))"
  by (simp add: post_generate_def)

lemma post_generate_refused:
  "GenerateRequest_validate p = None \<Longrightarrow>
   post_generate ser g cfg p st w = (Reply_RequestValidationError, st, w)"
  by (simp add: post_generate_def)

section \<open>The stub runtime, evaluated\<close>

lemma validate_hello_payload: "GenerateRequest_validate hello_payload = Some hello_request"
  by (simp add: GenerateRequest_validate_def hello_payload_def hello_request_def with_default_def)

lemma stub_run:
  "generate_response stub_generate default_config hello_request loaded_state stub_world =
     (Inr \<lparr>response = ''Hello!'', tokens_generated = 6, generation_time_ms = 61750,
           response_model = ''stub''\<rparr>,
      loaded_state\<lparr>request_count := 1, total_tokens_generated := 6\<rparr>,
      \<lparr>clock = 1062,
       calls = [ApplyChatTemplate [[(''role'', ''user''), (''content'', ''Hi'')]], Encode ''Hi'',
                Generate ''Hi'' 1024 (7 / 10) (9 / 10), Encode ''Hello!'']\<rparr>)"
  by (simp add: generate_response_def try_block_def call_defs except_clauses_def py_int_def
        stub_generate_def stub_tokenizer_def default_config_def hello_request_def
        loaded_state_def stub_world_def message_dict_def)

lemma stub_run_too_long:
  "generate_response stub_generate (default_config\<lparr>max_input_tokens := 1\<rparr>) hello_request
     loaded_state stub_world =
     (Inl (HTTPException 400 ''Input too long: 2 tokens (max: 1)''),
      loaded_state\<lparr>request_count := 1\<rparr>,
      \<lparr>clock = 1000 + 3 / 4,
       calls = [ApplyChatTemplate [[(''role'', ''user''), (''content'', ''Hi'')]], Encode ''Hi'']\<rparr>)"
  by (simp add: generate_response_def try_block_def call_defs except_clauses_def
        input_too_long_def str_int_def str_nat.simps digit_char_def
        stub_generate_def stub_tokenizer_def default_config_def hello_request_def
        loaded_state_def stub_world_def message_dict_def)

lemma stub_run_empty:
  "post_generate stub_serialize stub_generate default_config empty_payload loaded_state stub_world =
     (Reply_OK \<lparr>response = ''Hello!'', tokens_generated = 6, generation_time_ms = 61750,
           response_model = ''stub''\<rparr>,
      loaded_state\<lparr>request_count := 1, total_tokens_generated := 6\<rparr>,
      \<lparr>clock = 1062,
       calls = [ApplyChatTemplate [], Encode [], Generate [] 512 (7 / 10) (9 / 10),
                Encode ''Hello!'']\<rparr>)"
  by (simp add: post_generate_def respond_def stub_serialize_def
        GenerateRequest_validate_def with_default_def empty_payload_def
        generate_response_def try_block_def call_defs except_clauses_def py_int_def
        stub_generate_def stub_tokenizer_def default_config_def
        loaded_state_def stub_world_def message_dict_def)

lemma stub_run_tool:
  "post_generate stub_serialize stub_generate default_config tool_payload loaded_state stub_world =
     (Reply_OK \<lparr>response = ''Hello!'', tokens_generated = 6, generation_time_ms = 61750,
           response_model = ''stub''\<rparr>,
      loaded_state\<lparr>request_count := 1, total_tokens_generated := 6\<rparr>,
      \<lparr>clock = 1062,
       calls = [ApplyChatTemplate [[(''role'', ''tool''), (''content'', ''Hi'')]], Encode ''Hi'',
                Generate ''Hi'' 512 (7 / 10) (9 / 10), Encode ''Hello!'']\<rparr>)"
  by (simp add: post_generate_def respond_def stub_serialize_def
        GenerateRequest_validate_def with_default_def tool_payload_def
        generate_response_def try_block_def call_defs except_clauses_def py_int_def
        stub_generate_def stub_tokenizer_def default_config_def
        loaded_state_def stub_world_def message_dict_def)

lemma stub_run_unserializable:
  "post_generate raising_serialize stub_generate default_config hello_payload loaded_state
     stub_world =
     (JSONResponse 500 [(''error'', ''Internal server error''),
                        (''detail'', ''response is not serializable'')],
      loaded_state\<lparr>request_count := 1, total_tokens_generated := 6\<rparr>,
      \<lparr>clock = 1062,
       calls = [ApplyChatTemplate [[(''role'', ''user''), (''content'', ''Hi'')]], Encode ''Hi'',
                Generate ''Hi'' 1024 (7 / 10) (9 / 10), Encode ''Hello!'']\<rparr>)"
  by (simp add: post_generate_validated [OF validate_hello_payload] stub_run respond_def
        raising_serialize_def exception_reply_def global_exception_handler_def)

lemma stub_run_refused_too_long:
  "post_generate stub_serialize stub_generate (default_config\<lparr>max_input_tokens := 1\<rparr>)
     hello_payload loaded_state stub_world
     = (Reply_HTTPException 400 ''Input too long: 2 tokens (max: 1)'',
        loaded_state\<lparr>request_count := 1\<rparr>,
        \<lparr>clock = 1000 + 3 / 4,
         calls = [ApplyChatTemplate [[(''role'', ''user''), (''content'', ''Hi'')]],
                  Encode ''Hi'']\<rparr>)"
  by (simp add: post_generate_validated [OF validate_hello_payload] stub_run_too_long respond_def
        exception_reply_def)

section \<open>Claims\<close>

subsection \<open>The readiness gate\<close>

text \<open>
  C2. A request handled while no model is loaded (the model or the tokenizer is
  \<^verbatim>\<open>None\<close>) fails with the 503 \<^verbatim>\<open>HTTPException\<close>; the module state, and with it both
  counters, is returned as it was, and so is the world: no runtime call was made and no
  time was spent in one.
\<close>

theorem readiness_gate:
  assumes "model st = None \<or> tokenizer st = None"
  shows "generate_response g cfg req st w =
           (Inl (HTTPException 503 ''Model not loaded. Server is starting up.''), st, w)"
  using assms by (auto simp add: generate_response_def split: option.splits)

theorem readiness_gate_witness:
  "(model (initial_state :: unit ModelState) = None
      \<or> tokenizer (initial_state :: unit ModelState) = None) \<and>
   generate_response stub_generate default_config hello_request initial_state stub_world =
     (Inl (HTTPException 503 ''Model not loaded. Server is starting up.''),
      initial_state, stub_world)"
proof -
  have h: "model (initial_state :: unit ModelState) = None
             \<or> tokenizer (initial_state :: unit ModelState) = None"
    by (simp add: initial_state_def)
  from readiness_gate [OF h, of stub_generate default_config hello_request stub_world] h
  show ?thesis by simp
qed

subsection \<open>Input-length enforcement\<close>

text \<open>
  C3. With a model loaded, when the rendered prompt encodes to more tokens than
  \<^verbatim>\<open>max_input_tokens\<close>, the handler raises the 400 \<^verbatim>\<open>HTTPException\<close> whose detail
  prints the measured count and the ceiling, and the runtime was called twice only, to
  render and to encode: \<^verbatim>\<open>generate\<close> was not called.
\<close>

theorem input_length_enforcement:
  assumes "model st = Some m" and "tokenizer st = Some tk"
    and "apply_chat_template tk (map message_dict (messages req)) True False = (d1, Inr prompt)"
    and "encode tk prompt = (d2, Inr toks)"
    and "max_input_tokens cfg < int (length toks)"
  shows "fst (generate_response g cfg req st w) =
           Inl (HTTPException 400
                  (''Input too long: '' @ str_nat (length toks) @ '' tokens (max: ''
                     @ str_int (max_input_tokens cfg) @ '')''))
         \<and> generate_calls (calls (snd (snd (generate_response g cfg req st w))))
             = generate_calls (calls w)
         \<and> calls (snd (snd (generate_response g cfg req st w)))
             = calls w @ [ApplyChatTemplate (map message_dict (messages req)), Encode prompt]"
  using assms
  by (simp add: generate_response_loaded try_block_too_long except_clauses_def
        input_too_long_def generate_calls_def)

theorem input_length_enforcement_witness:
  "model loaded_state = Some () \<and> tokenizer loaded_state = Some stub_tokenizer
   \<and> apply_chat_template stub_tokenizer (map message_dict (messages hello_request)) True False
       = (1 / 2, Inr ''Hi'')
   \<and> encode stub_tokenizer ''Hi'' = (1 / 4, Inr [72, 105])
   \<and> max_input_tokens (default_config\<lparr>max_input_tokens := 1\<rparr>) < int (length [72 :: nat, 105])
   \<and> fst (generate_response stub_generate (default_config\<lparr>max_input_tokens := 1\<rparr>)
            hello_request loaded_state stub_world)
       = Inl (HTTPException 400 ''Input too long: 2 tokens (max: 1)'')
   \<and> generate_calls (calls (snd (snd (generate_response stub_generate
        (default_config\<lparr>max_input_tokens := 1\<rparr>) hello_request loaded_state stub_world)))) = []"
proof -
  have h1: "model loaded_state = Some ()" and h2: "tokenizer loaded_state = Some stub_tokenizer"
    by (simp_all add: loaded_state_def)
  have h3: "apply_chat_template stub_tokenizer (map message_dict (messages hello_request)) True False
       = (1 / 2, Inr ''Hi'')"
    by (simp add: stub_tokenizer_def hello_request_def message_dict_def)
  have h4: "encode stub_tokenizer ''Hi'' = (1 / 4, Inr [72, 105])"
    by (simp add: stub_tokenizer_def)
  have h5: "max_input_tokens (default_config\<lparr>max_input_tokens := 1\<rparr>)
              < int (length [72 :: nat, 105])"
    by simp
  have s2: "str_nat (Suc (Suc 0)) = ''2''" and s1: "str_int 1 = ''1''"
    by (simp_all add: str_int_def str_nat.simps digit_char_def)
  from input_length_enforcement [OF h1 h2 h3 h4 h5, of stub_generate stub_world] h1 h2 h3 h4 h5
  show ?thesis by (simp add: s1 s2 generate_calls_def stub_world_def)
qed

subsection \<open>Output-length clamping\<close>

text \<open>
  C4. For an accepted request (a model is loaded, the prompt renders and encodes, and
  its token count is within \<^verbatim>\<open>max_input_tokens\<close>) the handler calls \<^verbatim>\<open>generate\<close>
  exactly once, with \<^verbatim>\<open>max_tokens\<close> equal to the minimum of the request's
  \<^verbatim>\<open>max_tokens\<close> and the configured \<^verbatim>\<open>max_output_tokens\<close>: the call log gains that
  one call, and the handler's answer is computed from what \<^verbatim>\<open>generate\<close> answers at
  that value, its exception translated or its text counted and returned.
\<close>

theorem output_length_clamping:
  assumes "model st = Some m" and "tokenizer st = Some tk"
    and "apply_chat_template tk (map message_dict (messages req)) True False = (d1, Inr prompt)"
    and "encode tk prompt = (d2, Inr toks)"
    and "int (length toks) \<le> max_input_tokens cfg"
  shows "generate_calls (calls (snd (snd (generate_response g cfg req st w))))
           = generate_calls (calls w)
               @ [Generate prompt (min (max_tokens req) (max_output_tokens cfg))
                    (temperature req) (top_p req)]
         \<and> fst (generate_response g cfg req st w) =
             (case g m tk prompt (min (max_tokens req) (max_output_tokens cfg))
                     (temperature req) (top_p req) of
                (d3, Inl e) \<Rightarrow> except_clauses (Inl e)
              | (d3, Inr reply) \<Rightarrow>
                  (case encode tk reply of
                     (d4, Inl e) \<Rightarrow> except_clauses (Inl e)
                   | (d4, Inr out_toks) \<Rightarrow>
                       Inr \<lparr>response = reply, tokens_generated = int (length out_toks),
                            generation_time_ms = py_int ((d1 + d2 + d3) * 1000),
                            response_model = model_id st\<rparr>))"
proof -
  let ?mt = "min (max_tokens req) (max_output_tokens cfg)"
  obtain d3 r3 where g3: "g m tk prompt ?mt (temperature req) (top_p req) = (d3, r3)"
    by (cases "g m tk prompt ?mt (temperature req) (top_p req)")
  show ?thesis
  proof (cases r3)
    case (Inl e)
    with assms g3 show ?thesis
      by (simp add: generate_response_loaded try_block_generate_raises generate_calls_def)
  next
    case (Inr reply)
    obtain d4 r4 where g4: "encode tk reply = (d4, r4)"
      by (cases "encode tk reply")
    show ?thesis
    proof (cases r4)
      case (Inl e)
      with assms g3 g4 Inr show ?thesis
        by (simp add: generate_response_loaded try_block_count_raises generate_calls_def)
    next
      case (Inr out_toks)
      with assms g3 g4 \<open>r3 = Inr reply\<close>
      have "generate_response g cfg req st w =
         (Inr \<lparr>response = reply, tokens_generated = int (length out_toks),
               generation_time_ms = py_int ((d1 + d2 + d3) * 1000),
               response_model = model_id st\<rparr>,
          st\<lparr>request_count := request_count st + 1,
             total_tokens_generated := total_tokens_generated st + int (length out_toks)\<rparr>,
          w\<lparr>clock := clock w + d1 + d2 + d3 + d4,
            calls := calls w @ [ApplyChatTemplate (map message_dict (messages req)),
              Encode prompt, Generate prompt ?mt (temperature req) (top_p req),
              Encode reply]\<rparr>)"
        by (simp add: generate_response_success [where g = g and cfg = cfg and w = w])
      with g3 g4 Inr \<open>r3 = Inr reply\<close> show ?thesis
        by (simp add: generate_calls_def)
    qed
  qed
qed

theorem output_length_clamping_witness:
  "model loaded_state = Some () \<and> tokenizer loaded_state = Some stub_tokenizer
   \<and> apply_chat_template stub_tokenizer (map message_dict (messages hello_request)) True False
       = (1 / 2, Inr ''Hi'')
   \<and> encode stub_tokenizer ''Hi'' = (1 / 4, Inr [72, 105])
   \<and> int (length [72 :: nat, 105]) \<le> max_input_tokens default_config
   \<and> max_tokens hello_request = 2000 \<and> max_output_tokens default_config = 1024
   \<and> generate_calls (calls (snd (snd (generate_response echo_generate default_config
        hello_request loaded_state stub_world))))
       = [Generate ''Hi'' 1024 (7 / 10) (9 / 10)]
   \<and> fst (generate_response echo_generate default_config hello_request loaded_state stub_world)
       = Inr \<lparr>response = ''1024'', tokens_generated = 4, generation_time_ms = 3750,
              response_model = ''stub''\<rparr>"
proof -
  have h1: "model loaded_state = Some ()" and h2: "tokenizer loaded_state = Some stub_tokenizer"
    by (simp_all add: loaded_state_def)
  have h3: "apply_chat_template stub_tokenizer (map message_dict (messages hello_request)) True False
       = (1 / 2, Inr ''Hi'')"
    by (simp add: stub_tokenizer_def hello_request_def message_dict_def)
  have h4: "encode stub_tokenizer ''Hi'' = (1 / 4, Inr [72, 105])"
    by (simp add: stub_tokenizer_def)
  have h5: "int (length [72 :: nat, 105]) \<le> max_input_tokens default_config"
    by (simp add: default_config_def)
  have e: "echo_generate () stub_tokenizer ''Hi''
             (min (max_tokens hello_request) (max_output_tokens default_config))
             (temperature hello_request) (top_p hello_request) = (3, Inr ''1024'')"
    by (simp add: echo_generate_def hello_request_def default_config_def str_int_def
          str_nat.simps digit_char_def)
  have c: "encode stub_tokenizer ''1024'' = (1 / 4, Inr [49, 48, 50, 52])"
    by (simp add: stub_tokenizer_def)
  from output_length_clamping [OF h1 h2 h3 h4 h5, of echo_generate stub_world] h1 h2 h3 h4 h5
  show ?thesis
    by (simp add: e c py_int_def) (simp add: generate_calls_def stub_world_def hello_request_def
          default_config_def loaded_state_def)
qed

subsection \<open>Health and statistics\<close>

text \<open>
  C8. \<^verbatim>\<open>health_check\<close> is a total function of the clock and the module state: it
  returns a response for every state. Its status is \<^verbatim>\<open>healthy\<close> exactly when
  \<^verbatim>\<open>model_loaded\<close> is true, which is exactly when a model is held; its uptime is the
  clock minus \<^verbatim>\<open>start_time\<close> when \<^verbatim>\<open>start_time\<close> has been set, and 0 when it still
  has its initial value 0.
\<close>

theorem health_check_spec:
  "(status (health_check w st) = ''healthy'' \<longleftrightarrow> model_loaded (health_check w st))
   \<and> (model_loaded (health_check w st) \<longleftrightarrow> model st \<noteq> None)
   \<and> (start_time st \<noteq> 0 \<longrightarrow> uptime_seconds (health_check w st) = clock w - start_time st)
   \<and> (start_time st = 0 \<longrightarrow> uptime_seconds (health_check w st) = 0)"
  by (simp add: health_check_def)

theorem health_check_spec_witness:
  "start_time loaded_state \<noteq> 0
   \<and> status (health_check stub_world loaded_state) = ''healthy''
   \<and> uptime_seconds (health_check stub_world loaded_state) = 900
   \<and> start_time (initial_state :: unit ModelState) = 0
   \<and> status (health_check stub_world (initial_state :: unit ModelState)) \<noteq> ''healthy''
   \<and> uptime_seconds (health_check stub_world (initial_state :: unit ModelState)) = 0"
  using health_check_spec [of stub_world loaded_state]
    health_check_spec [of stub_world "initial_state :: unit ModelState"]
  by (simp add: loaded_state_def initial_state_def stub_world_def)

text \<open>
  C10. When \<^verbatim>\<open>start_time\<close> still has its initial value 0, \<^verbatim>\<open>get_stats\<close> reports as
  uptime the clock minus 0, the seconds since the epoch, where \<^verbatim>\<open>health_check\<close>
  reports 0.
\<close>

theorem stats_uptime_unguarded:
  assumes "start_time st = 0"
  shows "stats_uptime_seconds (get_stats w st) = clock w - 0
         \<and> uptime_seconds (health_check w st) = 0"
  using assms by (simp add: get_stats_def health_check_def)

theorem stats_uptime_unguarded_witness:
  "start_time (initial_state :: unit ModelState) = 0
   \<and> stats_uptime_seconds (get_stats stub_world (initial_state :: unit ModelState)) = 1000
   \<and> uptime_seconds (health_check stub_world (initial_state :: unit ModelState)) = 0"
proof -
  have h: "start_time (initial_state :: unit ModelState) = 0"
    by (simp add: initial_state_def)
  from stats_uptime_unguarded [OF h, of stub_world] h show ?thesis
    by (simp add: stub_world_def)
qed

subsection \<open>Accounting\<close>

text \<open>
  C1, as stated, fails: a request that is refused at input-length enforcement, before
  any call to \<^verbatim>\<open>generate\<close>, has already been counted in \<^verbatim>\<open>request_count\<close>.
\<close>

theorem counters_counterexample:
  "fst (generate_response stub_generate (default_config\<lparr>max_input_tokens := 1\<rparr>) hello_request
          loaded_state stub_world)
     = Inl (HTTPException 400 ''Input too long: 2 tokens (max: 1)'')
   \<and> generate_calls (calls (snd (snd (generate_response stub_generate
         (default_config\<lparr>max_input_tokens := 1\<rparr>) hello_request loaded_state stub_world)))) = []
   \<and> request_count (fst (snd (generate_response stub_generate
         (default_config\<lparr>max_input_tokens := 1\<rparr>) hello_request loaded_state stub_world)))
       \<noteq> request_count loaded_state"
  unfolding stub_run_too_long by (simp add: generate_calls_def loaded_state_def)

text \<open>
  C1, amended. \<^verbatim>\<open>request_count\<close> grows by exactly one for every request that passes
  schema validation and the readiness gate, whatever happens to it afterwards, and is
  unchanged for a request refused by either. \<^verbatim>\<open>total_tokens_generated\<close> grows by the
  \<^verbatim>\<open>tokens_generated\<close> of the response for every request on which the handler returns
  a response, and is unchanged for every request that is refused before the handler or
  on which the handler raises. The state the route leaves does not depend on the
  serializer: when serializing the returned response fails and the client is answered
  500, both counters have been updated all the same.
\<close>

theorem counters_accounting:
  assumes "post_generate ser g cfg p st w = (reply, st', w')"
  shows "request_count st' =
           request_count st
             + (if GenerateRequest_validate p = None \<or> model st = None \<or> tokenizer st = None
                then 0 else 1)
         \<and> total_tokens_generated st' =
             total_tokens_generated st
               + (case GenerateRequest_validate p of
                    None \<Rightarrow> 0
                  | Some req \<Rightarrow>
                      (case fst (generate_response g cfg req st w) of
                         Inl e \<Rightarrow> 0
                       | Inr v \<Rightarrow> tokens_generated v))
         \<and> fst (snd (post_generate ser' g cfg p st w)) = st'"
proof (cases "GenerateRequest_validate p")
  case None
  with assms show ?thesis by (auto simp add: post_generate_def)
next
  case (Some req)
  obtain r0 st0 w0 where g: "generate_response g cfg req st w = (r0, st0, w0)"
    by (cases "generate_response g cfg req st w")
  from assms Some g have e: "st' = st0"
    by (auto simp add: post_generate_def)
  from Some g have k: "fst (snd (post_generate ser' g cfg p st w)) = st0"
    by (simp add: post_generate_def)
  from generate_response_counters [OF g] e k g Some show ?thesis
    by simp
qed

theorem counters_accounting_witness:
  "post_generate raising_serialize stub_generate default_config hello_payload loaded_state
     stub_world =
     (JSONResponse 500 [(''error'', ''Internal server error''),
                        (''detail'', ''response is not serializable'')],
      loaded_state\<lparr>request_count := 1, total_tokens_generated := 6\<rparr>,
      \<lparr>clock = 1062,
       calls = [ApplyChatTemplate [[(''role'', ''user''), (''content'', ''Hi'')]], Encode ''Hi'',
                Generate ''Hi'' 1024 (7 / 10) (9 / 10), Encode ''Hello!'']\<rparr>)
   \<and> request_count (loaded_state\<lparr>request_count := 1, total_tokens_generated := 6\<rparr>)
       = request_count loaded_state + 1
   \<and> total_tokens_generated (loaded_state\<lparr>request_count := 1, total_tokens_generated := 6\<rparr>)
       = total_tokens_generated loaded_state + 6
   \<and> post_generate stub_serialize stub_generate (default_config\<lparr>max_input_tokens := 1\<rparr>)
        hello_payload loaded_state stub_world
       = (Reply_HTTPException 400 ''Input too long: 2 tokens (max: 1)'',
          loaded_state\<lparr>request_count := 1\<rparr>,
          \<lparr>clock = 1000 + 3 / 4,
           calls = [ApplyChatTemplate [[(''role'', ''user''), (''content'', ''Hi'')]],
                    Encode ''Hi'']\<rparr>)
   \<and> request_count (loaded_state\<lparr>request_count := 1\<rparr>) = request_count loaded_state + 1
   \<and> total_tokens_generated (loaded_state\<lparr>request_count := 1\<rparr>)
       = total_tokens_generated loaded_state"
proof -
  have l: "model loaded_state \<noteq> None" "tokenizer loaded_state \<noteq> None"
    by (simp_all add: loaded_state_def)
  from counters_accounting [OF stub_run_unserializable, where ser' = stub_serialize]
       counters_accounting [OF stub_run_refused_too_long, where ser' = raising_serialize]
       stub_run_unserializable stub_run_refused_too_long l
  show ?thesis
    by (simp add: validate_hello_payload stub_run stub_run_too_long)
qed

subsection \<open>Runtime failures\<close>

text \<open>
  C9. With a model loaded, when the runtime raises an exception that is not an
  \<^verbatim>\<open>HTTPException\<close>, with message \<open>msg\<close>, while rendering the prompt, counting the
  input tokens, generating, or counting the output tokens, the handler raises the 500
  \<^verbatim>\<open>HTTPException\<close> whose detail ends with \<open>msg\<close>; no other kind of exception ever
  leaves the handler.
\<close>

theorem runtime_failure_translated:
  assumes "model st = Some m" and "tokenizer st = Some tk"
    and "apply_chat_template tk (map message_dict (messages req)) True False
           = (d1, Inl (PyException msg))
         \<or> apply_chat_template tk (map message_dict (messages req)) True False = (d1, Inr prompt)
           \<and> (encode tk prompt = (d2, Inl (PyException msg))
              \<or> encode tk prompt = (d2, Inr toks) \<and> int (length toks) \<le> max_input_tokens cfg
                \<and> (g m tk prompt (min (max_tokens req) (max_output_tokens cfg))
                       (temperature req) (top_p req) = (d3, Inl (PyException msg))
                   \<or> g m tk prompt (min (max_tokens req) (max_output_tokens cfg))
                       (temperature req) (top_p req) = (d3, Inr reply)
                     \<and> encode tk reply = (d4, Inl (PyException msg))))"
  shows "fst (generate_response g cfg req st w)
           = Inl (HTTPException 500 (''Generation failed: '' @ msg))
         \<and> fst (generate_response g cfg req st w) \<noteq> Inl (PyException e)"
  using assms(3)
proof (elim disjE conjE)
  assume "apply_chat_template tk (map message_dict (messages req)) True False
            = (d1, Inl (PyException msg))"
  with assms(1,2) show ?thesis
    by (simp add: generate_response_loaded try_block_render_raises except_clauses_def)
next
  assume "apply_chat_template tk (map message_dict (messages req)) True False = (d1, Inr prompt)"
    and "encode tk prompt = (d2, Inl (PyException msg))"
  with assms(1,2) show ?thesis
    by (simp add: generate_response_loaded try_block_encode_raises except_clauses_def)
next
  assume "apply_chat_template tk (map message_dict (messages req)) True False = (d1, Inr prompt)"
    and "encode tk prompt = (d2, Inr toks)" and "int (length toks) \<le> max_input_tokens cfg"
    and "g m tk prompt (min (max_tokens req) (max_output_tokens cfg))
           (temperature req) (top_p req) = (d3, Inl (PyException msg))"
  with assms(1,2) show ?thesis
    by (simp add: generate_response_loaded try_block_generate_raises except_clauses_def)
next
  assume "apply_chat_template tk (map message_dict (messages req)) True False = (d1, Inr prompt)"
    and "encode tk prompt = (d2, Inr toks)" and "int (length toks) \<le> max_input_tokens cfg"
    and "g m tk prompt (min (max_tokens req) (max_output_tokens cfg))
           (temperature req) (top_p req) = (d3, Inr reply)"
    and "encode tk reply = (d4, Inl (PyException msg))"
  with assms(1,2) show ?thesis
    by (simp add: generate_response_loaded try_block_count_raises except_clauses_def)
qed

theorem runtime_failure_translated_witness:
  "model (loaded_state\<lparr>tokenizer := Some raising_tokenizer\<rparr>) = Some ()
   \<and> tokenizer (loaded_state\<lparr>tokenizer := Some raising_tokenizer\<rparr>) = Some raising_tokenizer
   \<and> apply_chat_template raising_tokenizer (map message_dict (messages hello_request)) True False
       = (1 / 2, Inl (PyException ''no chat template''))
   \<and> fst (generate_response stub_generate default_config hello_request
            (loaded_state\<lparr>tokenizer := Some raising_tokenizer\<rparr>) stub_world)
       = Inl (HTTPException 500 ''Generation failed: no chat template'')"
proof -
  have h1: "model (loaded_state\<lparr>tokenizer := Some raising_tokenizer\<rparr>) = Some ()"
    and h2: "tokenizer (loaded_state\<lparr>tokenizer := Some raising_tokenizer\<rparr>)
               = Some raising_tokenizer"
    by (simp_all add: loaded_state_def)
  have h3: "apply_chat_template raising_tokenizer (map message_dict (messages hello_request))
              True False = (1 / 2, Inl (PyException ''no chat template''))"
    by (simp add: raising_tokenizer_def)
  from runtime_failure_translated [where g = stub_generate and cfg = default_config
      and w = stub_world and req = hello_request, OF h1 h2 disjI1 [OF h3]] h1 h2 h3
  show ?thesis by simp
qed

subsection \<open>Shape validation\<close>

text \<open>
  C5, as stated, fails: a request with an empty message list, and a request whose only
  message has the role \<^verbatim>\<open>tool\<close>, pass schema validation, reach the handler and are
  answered 200 after calls to the tokenizer and to \<^verbatim>\<open>generate\<close>.
\<close>

theorem shape_validation_counterexample:
  "payload_messages empty_payload = Some []
   \<and> fst (post_generate stub_serialize stub_generate default_config empty_payload loaded_state
        stub_world)
       = Reply_OK \<lparr>response = ''Hello!'', tokens_generated = 6, generation_time_ms = 61750,
                   response_model = ''stub''\<rparr>
   \<and> calls (snd (snd (post_generate stub_serialize stub_generate default_config empty_payload
        loaded_state stub_world)))
       = [ApplyChatTemplate [], Encode [], Generate [] 512 (7 / 10) (9 / 10), Encode ''Hello!'']
   \<and> payload_messages tool_payload = Some [\<lparr>role = ''tool'', content = ''Hi''\<rparr>]
   \<and> fst (post_generate stub_serialize stub_generate default_config tool_payload loaded_state
        stub_world)
       = Reply_OK \<lparr>response = ''Hello!'', tokens_generated = 6, generation_time_ms = 61750,
                   response_model = ''stub''\<rparr>
   \<and> calls (snd (snd (post_generate stub_serialize stub_generate default_config tool_payload
        loaded_state stub_world)))
       = [ApplyChatTemplate [[(''role'', ''tool''), (''content'', ''Hi'')]], Encode ''Hi'',
          Generate ''Hi'' 512 (7 / 10) (9 / 10), Encode ''Hello!'']"
  unfolding stub_run_empty stub_run_tool
  by (simp add: empty_payload_def tool_payload_def)

text \<open>
  C5, amended. A request whose \<^verbatim>\<open>max_tokens\<close> is outside 1 to 2048, whose
  \<^verbatim>\<open>temperature\<close> is outside 0 to 2 or whose \<^verbatim>\<open>top_p\<close> is outside 0 to 1 is refused
  by schema validation: the handler does not run, so no tokenizer or model call is made
  and the module state is unchanged. A request with an empty message list and numeric
  fields in range is not refused: the route runs the handler on the request with no
  messages and answers what the handler gives; when a model is loaded, the first thing
  the handler then does is to call the chat template on the empty conversation (when
  none is loaded, the readiness gate answers 503 as for any request).
\<close>

theorem shape_validation_numeric:
  "(payload_max_tokens p = Some mt \<and> (mt < 1 \<or> 2048 < mt)
      \<or> payload_temperature p = Some te \<and> (te < 0 \<or> 2 < te)
      \<or> payload_top_p p = Some tp \<and> (tp < 0 \<or> 1 < tp)
    \<longrightarrow> post_generate ser g cfg p st w = (Reply_RequestValidationError, st, w))
   \<and> (payload_messages p = Some []
        \<and> 1 \<le> with_default 512 (payload_max_tokens p)
        \<and> with_default 512 (payload_max_tokens p) \<le> 2048
        \<and> 0 \<le> with_default (7 / 10) (payload_temperature p)
        \<and> with_default (7 / 10) (payload_temperature p) \<le> 2
        \<and> 0 \<le> with_default (9 / 10) (payload_top_p p)
        \<and> with_default (9 / 10) (payload_top_p p) \<le> 1
      \<longrightarrow> post_generate ser g cfg p st w =
            (let (r, st', w') =
               generate_response g cfg
                 \<lparr>messages = [], max_tokens = with_default 512 (payload_max_tokens p),
                  temperature = with_default (7 / 10) (payload_temperature p),
                  top_p = with_default (9 / 10) (payload_top_p p)\<rparr> st w
             in (respond ser r, st', w'))
          \<and> (model st \<noteq> None \<and> tokenizer st \<noteq> None
              \<longrightarrow> take (Suc (length (calls w)))
                     (calls (snd (snd (post_generate ser g cfg p st w))))
                    = calls w @ [ApplyChatTemplate []]))"
proof (intro conjI impI)
  assume "payload_max_tokens p = Some mt \<and> (mt < 1 \<or> 2048 < mt)
      \<or> payload_temperature p = Some te \<and> (te < 0 \<or> 2 < te)
      \<or> payload_top_p p = Some tp \<and> (tp < 0 \<or> 1 < tp)"
  then have "GenerateRequest_validate p = None"
    by (auto simp add: GenerateRequest_validate_def with_default_def Let_def split: option.splits)
  then show "post_generate ser g cfg p st w = (Reply_RequestValidationError, st, w)"
    by (rule post_generate_refused)
next
  let ?req = "\<lparr>messages = [], max_tokens = with_default 512 (payload_max_tokens p),
                temperature = with_default (7 / 10) (payload_temperature p),
                top_p = with_default (9 / 10) (payload_top_p p)\<rparr>"
  assume a: "payload_messages p = Some []
        \<and> 1 \<le> with_default 512 (payload_max_tokens p)
        \<and> with_default 512 (payload_max_tokens p) \<le> 2048
        \<and> 0 \<le> with_default (7 / 10) (payload_temperature p)
        \<and> with_default (7 / 10) (payload_temperature p) \<le> 2
        \<and> 0 \<le> with_default (9 / 10) (payload_top_p p)
        \<and> with_default (9 / 10) (payload_top_p p) \<le> 1"
  then have v: "GenerateRequest_validate p = Some ?req"
    by (simp add: GenerateRequest_validate_def Let_def)
  show r: "post_generate ser g cfg p st w =
            (let (r, st', w') = generate_response g cfg ?req st w in (respond ser r, st', w'))"
    by (rule post_generate_validated [OF v])
  assume "model st \<noteq> None \<and> tokenizer st \<noteq> None"
  then obtain m tk where l: "model st = Some m" "tokenizer st = Some tk" by auto
  from generate_response_first_call [OF l, of w g cfg ?req]
  show "take (Suc (length (calls w))) (calls (snd (snd (post_generate ser g cfg p st w))))
          = calls w @ [ApplyChatTemplate []]"
    by (auto simp add: r split: prod.splits)
qed

theorem shape_validation_numeric_witness:
  "payload_max_tokens greedy_payload = Some 5000 \<and> (2048 :: int) < 5000
   \<and> post_generate stub_serialize stub_generate default_config greedy_payload loaded_state
        stub_world
       = (Reply_RequestValidationError, loaded_state, stub_world)
   \<and> payload_messages empty_payload = Some []
   \<and> model loaded_state \<noteq> None \<and> tokenizer loaded_state \<noteq> None
   \<and> post_generate stub_serialize stub_generate default_config empty_payload loaded_state
        stub_world
       = (let (r, st', w') =
            generate_response stub_generate default_config
              \<lparr>messages = [], max_tokens = 512, temperature = 7 / 10, top_p = 9 / 10\<rparr>
              loaded_state stub_world
          in (respond stub_serialize r, st', w'))
   \<and> take (Suc (length (calls stub_world)))
        (calls (snd (snd (post_generate stub_serialize stub_generate default_config empty_payload
           loaded_state stub_world))))
       = calls stub_world @ [ApplyChatTemplate []]"
proof -
  have h: "payload_max_tokens greedy_payload = Some 5000
             \<and> ((5000 :: int) < 1 \<or> (2048 :: int) < 5000)"
    by (simp add: greedy_payload_def)
  have k: "payload_messages empty_payload = Some []"
      "with_default 512 (payload_max_tokens empty_payload) = 512"
      "with_default (7 / 10) (payload_temperature empty_payload) = 7 / 10"
      "with_default (9 / 10) (payload_top_p empty_payload) = 9 / 10"
    by (simp_all add: empty_payload_def with_default_def)
  have l: "model loaded_state \<noteq> None" "tokenizer loaded_state \<noteq> None"
    by (simp_all add: loaded_state_def)
  have e: "payload_messages empty_payload = Some []
        \<and> 1 \<le> with_default 512 (payload_max_tokens empty_payload)
        \<and> with_default 512 (payload_max_tokens empty_payload) \<le> 2048
        \<and> 0 \<le> with_default (7 / 10) (payload_temperature empty_payload)
        \<and> with_default (7 / 10) (payload_temperature empty_payload) \<le> 2
        \<and> 0 \<le> with_default (9 / 10) (payload_top_p empty_payload)
        \<and> with_default (9 / 10) (payload_top_p empty_payload) \<le> 1"
    by (simp add: k)
  note refused = shape_validation_numeric [of greedy_payload 5000 0 0 stub_serialize
      stub_generate default_config loaded_state stub_world, THEN conjunct1, THEN mp,
      OF disjI1, OF h]
  note passed = shape_validation_numeric [of empty_payload 0 0 0 stub_serialize
      stub_generate default_config loaded_state stub_world, THEN conjunct2, THEN mp, OF e]
  note handled = passed [THEN conjunct1, unfolded k]
  note rendered = passed [THEN conjunct2, THEN mp, OF conjI, OF l]
  from h k l show ?thesis
    apply (simp only: rendered)
    apply (simp only: refused handled)
    apply simp
    done
qed

subsection \<open>Timing\<close>

text \<open>
  C6, as stated, fails: with rendering taking half a second, encoding a quarter and
  \<^verbatim>\<open>generate\<close> 61 seconds, the response reports 61750 ms, where the time around the
  \<^verbatim>\<open>generate\<close> call alone is 61000 ms.
\<close>

theorem generation_time_counterexample:
  "fst (generate_response stub_generate default_config hello_request loaded_state stub_world)
     = Inr \<lparr>response = ''Hello!'', tokens_generated = 6, generation_time_ms = 61750,
            response_model = ''stub''\<rparr>
   \<and> stub_generate () stub_tokenizer ''Hi'' 1024 (7 / 10) (9 / 10) = (61, Inr ''Hello!'')
   \<and> py_int (61 * 1000) = 61000"
  unfolding stub_run by (simp add: stub_generate_def py_int_def)

text \<open>
  C6, amended. For a successful request \<^verbatim>\<open>generation_time_ms\<close> is the time, in whole
  milliseconds, from the clock read that follows the readiness gate to the return of
  \<^verbatim>\<open>generate\<close>: it covers prompt rendering, input-token counting and generation, and
  leaves out schema validation, which precedes the handler, and output-token counting,
  which follows the second clock read.
\<close>

theorem generation_time_span:
  assumes "model st = Some m" and "tokenizer st = Some tk"
    and "apply_chat_template tk (map message_dict (messages req)) True False = (d1, Inr prompt)"
    and "encode tk prompt = (d2, Inr toks)"
    and "int (length toks) \<le> max_input_tokens cfg"
    and "g m tk prompt (min (max_tokens req) (max_output_tokens cfg)) (temperature req) (top_p req)
           = (d3, Inr reply)"
    and "encode tk reply = (d4, Inr out_toks)"
  shows "fst (generate_response g cfg req st w) =
           Inr \<lparr>response = reply, tokens_generated = int (length out_toks),
                generation_time_ms = py_int ((d1 + d2 + d3) * 1000),
                response_model = model_id st\<rparr>"
  by (simp add: generate_response_success [where g = g and cfg = cfg and w = w, OF assms])

theorem generation_time_span_witness:
  "model loaded_state = Some () \<and> tokenizer loaded_state = Some stub_tokenizer
   \<and> apply_chat_template stub_tokenizer (map message_dict (messages hello_request)) True False
       = (1 / 2, Inr ''Hi'')
   \<and> encode stub_tokenizer ''Hi'' = (1 / 4, Inr [72, 105])
   \<and> int (length [72 :: nat, 105]) \<le> max_input_tokens default_config
   \<and> stub_generate () stub_tokenizer ''Hi''
        (min (max_tokens hello_request) (max_output_tokens default_config))
        (temperature hello_request) (top_p hello_request) = (61, Inr ''Hello!'')
   \<and> encode stub_tokenizer ''Hello!'' = (1 / 4, Inr [72, 101, 108, 108, 111, 33])
   \<and> fst (generate_response stub_generate default_config hello_request loaded_state stub_world)
       = Inr \<lparr>response = ''Hello!'', tokens_generated = 6, generation_time_ms = 61750,
              response_model = ''stub''\<rparr>"
proof -
  have h1: "model loaded_state = Some ()" and h2: "tokenizer loaded_state = Some stub_tokenizer"
    by (simp_all add: loaded_state_def)
  have h3: "apply_chat_template stub_tokenizer (map message_dict (messages hello_request)) True False
       = (1 / 2, Inr ''Hi'')"
    by (simp add: stub_tokenizer_def hello_request_def message_dict_def)
  have h4: "encode stub_tokenizer ''Hi'' = (1 / 4, Inr [72, 105])"
    by (simp add: stub_tokenizer_def)
  have h5: "int (length [72 :: nat, 105]) \<le> max_input_tokens default_config"
    by (simp add: default_config_def)
  have h6: "stub_generate () stub_tokenizer ''Hi''
              (min (max_tokens hello_request) (max_output_tokens default_config))
              (temperature hello_request) (top_p hello_request) = (61, Inr ''Hello!'')"
    by (simp add: stub_generate_def)
  have h7: "encode stub_tokenizer ''Hello!'' = (1 / 4, Inr [72, 101, 108, 108, 111, 33])"
    by (simp add: stub_tokenizer_def)
  from generation_time_span [where g = stub_generate and cfg = default_config
      and w = stub_world, OF h1 h2 h3 h4 h5 h6 h7] h1 h2 h3 h4 h5 h6 h7
  show ?thesis by (simp add: py_int_def loaded_state_def)
qed




end
